theory Spec2Isabelle
  imports Complex_Main
begin

section \<open>JavaScript numbers over exact arithmetic\<close>

text \<open>
  The calculator works on JavaScript numbers. The model keeps the three non-finite values
  of the type (\<open>NaN\<close>, \<open>Infinity\<close>, \<open>-Infinity\<close>) and takes every finite value as an
  exact real: rounding of binary floating point and the sign of zero are not modelled.
  The operators follow IEEE 754 on the non-finite values.
\<close>

datatype number = NaN | Infinity | NegInfinity | Fin real

instantiation number :: "{zero, plus, uminus, minus, times, inverse, ord}"
begin

definition zero_number :: number where
  "zero_number = Fin 0"

fun plus_number :: "number \<Rightarrow> number \<Rightarrow> number" where
  "plus_number NaN y = NaN"
| "plus_number x NaN = NaN"
| "plus_number Infinity NegInfinity = NaN"
| "plus_number NegInfinity Infinity = NaN"
| "plus_number Infinity y = Infinity"
| "plus_number x Infinity = Infinity"
| "plus_number NegInfinity y = NegInfinity"
| "plus_number x NegInfinity = NegInfinity"
| "plus_number (Fin a) (Fin b) = Fin (a + b)"

fun uminus_number :: "number \<Rightarrow> number" where
  "uminus_number NaN = NaN"
| "uminus_number Infinity = NegInfinity"
| "uminus_number NegInfinity = Infinity"
| "uminus_number (Fin a) = Fin (- a)"

definition minus_number :: "number \<Rightarrow> number \<Rightarrow> number" where
  "minus_number x y = x + (- y)"

fun times_number :: "number \<Rightarrow> number \<Rightarrow> number" where
  "times_number NaN y = NaN"
| "times_number x NaN = NaN"
| "times_number Infinity Infinity = Infinity"
| "times_number Infinity NegInfinity = NegInfinity"
| "times_number NegInfinity Infinity = NegInfinity"
| "times_number NegInfinity NegInfinity = Infinity"
| "times_number Infinity (Fin b) =
     (if b = 0 then NaN else if 0 < b then Infinity else NegInfinity)"
| "times_number NegInfinity (Fin b) =
     (if b = 0 then NaN else if 0 < b then NegInfinity else Infinity)"
| "times_number (Fin a) Infinity =
     (if a = 0 then NaN else if 0 < a then Infinity else NegInfinity)"
| "times_number (Fin a) NegInfinity =
     (if a = 0 then NaN else if 0 < a then NegInfinity else Infinity)"
| "times_number (Fin a) (Fin b) = Fin (a * b)"

text \<open>A zero divisor is taken as \<open>+0\<close>.\<close>

fun divide_number :: "number \<Rightarrow> number \<Rightarrow> number" where
  "divide_number NaN y = NaN"
| "divide_number x NaN = NaN"
| "divide_number Infinity Infinity = NaN"
| "divide_number Infinity NegInfinity = NaN"
| "divide_number NegInfinity Infinity = NaN"
| "divide_number NegInfinity NegInfinity = NaN"
| "divide_number Infinity (Fin b) = (if 0 \<le> b then Infinity else NegInfinity)"
| "divide_number NegInfinity (Fin b) = (if 0 \<le> b then NegInfinity else Infinity)"
| "divide_number (Fin a) Infinity = Fin 0"
| "divide_number (Fin a) NegInfinity = Fin 0"
| "divide_number (Fin a) (Fin b) =
     (if b = 0 then (if a = 0 then NaN else if 0 < a then Infinity else NegInfinity)
      else Fin (a / b))"

definition inverse_number :: "number \<Rightarrow> number" where
  "inverse_number x = divide (Fin 1) x"

text \<open>Every comparison with \<open>NaN\<close> is false.\<close>

fun less_number :: "number \<Rightarrow> number \<Rightarrow> bool" where
  "less_number NaN y = False"
| "less_number x NaN = False"
| "less_number x NegInfinity = False"
| "less_number Infinity y = False"
| "less_number NegInfinity y = True"
| "less_number x Infinity = True"
| "less_number (Fin a) (Fin b) = (a < b)"

fun less_eq_number :: "number \<Rightarrow> number \<Rightarrow> bool" where
  "less_eq_number NaN y = False"
| "less_eq_number x NaN = False"
| "less_eq_number NegInfinity y = True"
| "less_eq_number x Infinity = True"
| "less_eq_number x NegInfinity = False"
| "less_eq_number Infinity y = False"
| "less_eq_number (Fin a) (Fin b) = (a \<le> b)"

instance ..

end

text \<open>
  Addition is associative and commutative also on the non-finite values, and \<open>Fin 0\<close> is
  neutral, so sums over lists of numbers are available.
\<close>

instance number :: comm_monoid_add
proof
  show "x + y + z = x + (y + z)" for x y z :: number
    by (cases x; cases y; cases z; simp)
  show "x + y = y + x" for x y :: number
    by (cases x; cases y; simp)
  show "0 + x = x" for x :: number
    by (cases x; simp add: zero_number_def)
qed

fun isNaN :: "number \<Rightarrow> bool" where
  "isNaN NaN = True"
| "isNaN x = False"

text \<open>\<open>Math.max\<close> and \<open>Math.min\<close> return \<open>NaN\<close> as soon as one argument is \<open>NaN\<close>.\<close>

definition Math_max :: "number \<Rightarrow> number \<Rightarrow> number" where
  "Math_max x y = (if isNaN x \<or> isNaN y then NaN else if x < y then y else x)"

definition Math_min :: "number \<Rightarrow> number \<Rightarrow> number" where
  "Math_min x y = (if isNaN x \<or> isNaN y then NaN else if y < x then y else x)"

subsection \<open>\<open>Number.prototype.toFixed\<close>\<close>

definition digit_char :: "nat \<Rightarrow> char" where
  "digit_char d = ''0123456789'' ! d"

fun decimal :: "nat \<Rightarrow> string" where
  "decimal n = (if n < 10 then [digit_char n] else decimal (n div 10) @ [digit_char (n mod 10)])"

declare decimal.simps [simp del]

text \<open>
  \<open>x.toFixed(f)\<close> for \<open>0 \<le> f \<le> 100\<close> (the calculator passes the literal 2): the integer
  \<open>n\<close> nearest to \<open>x * 10^f\<close>, the larger one on a tie, is written in decimal, padded
  with zeros to \<open>f + 1\<close> digits, and the point is put before the last \<open>f\<close> digits.
  From \<open>10^21\<close> on the built-in falls back to the shortest round-trip digits of the
  binary value, which the exact model cannot give: the result is left unspecified there.
\<close>

definition toFixed :: "number \<Rightarrow> nat \<Rightarrow> string" where
  "toFixed x f =
     (case x of
        NaN \<Rightarrow> ''NaN''
      | Infinity \<Rightarrow> ''Infinity''
      | NegInfinity \<Rightarrow> ''-Infinity''
      | Fin r \<Rightarrow>
          (let s = (if r < 0 then ''-'' else '''');
               a = \<bar>r\<bar>
           in if 10 ^ 21 \<le> a then undefined
              else
                let n = nat \<lfloor>a * 10 ^ f + 1 / 2\<rfloor>;
                    m = decimal n;
                    m = (if f \<noteq> 0 \<and> length m \<le> f
                         then replicate (f + 1 - length m) (CHR ''0'') @ m else m);
                    k = length m
                in if f \<noteq> 0 then s @ take (k - f) m @ ''.'' @ drop (k - f) m
                   else s @ m))"

section \<open>Types and constants\<close>

text \<open>\<open>type ServiceType = 1 | 2 | 3\<close>: 1 is goods, 2 is services, 3 is works.\<close>

datatype ServiceType = Goods | Services | Works

datatype InputUnit = Yuan | Wanyuan

record Tier =
  limit :: number
  label :: string

text \<open>
  The thresholds of the progressive calculation, in yuan. The labels are Chinese text,
  given here as their UTF-8 bytes.
\<close>

definition wan :: string where
  "wan = [CHR 0xE4, CHR 0xB8, CHR 0x87]"

definition yuan :: string where
  "yuan = [CHR 0xE5, CHR 0x85, CHR 0x83]"

definition yi :: string where
  "yi = [CHR 0xE4, CHR 0xBA, CHR 0xBF]"

definition yixia :: string where
  "yixia = [CHR 0xE4, CHR 0xBB, CHR 0xA5, CHR 0xE4, CHR 0xB8, CHR 0x8B]"

definition yishang :: string where
  "yishang = [CHR 0xE4, CHR 0xBB, CHR 0xA5, CHR 0xE4, CHR 0xB8, CHR 0x8A]"

definition TIERS :: "Tier list" where
  "TIERS =
     [\<lparr>limit = Fin 1000000, label = ''100'' @ wan @ yuan @ yixia\<rparr>,
      \<lparr>limit = Fin 5000000, label = ''100-500'' @ wan @ yuan\<rparr>,
      \<lparr>limit = Fin 10000000, label = ''500-1000'' @ wan @ yuan\<rparr>,
      \<lparr>limit = Fin 50000000, label = ''1000-5000'' @ wan @ yuan\<rparr>,
      \<lparr>limit = Fin 100000000, label = ''5000'' @ wan @ yuan @ ''-1'' @ yi @ yuan\<rparr>,
      \<lparr>limit = Fin 1000000000, label = ''1-10'' @ yi @ yuan\<rparr>,
      \<lparr>limit = Infinity, label = ''10'' @ yi @ yuan @ yishang\<rparr>]"

text \<open>The rate table of each service type; the values are percentages.\<close>

fun RATES :: "ServiceType \<Rightarrow> number list" where
  "RATES Goods =
     [Fin 1.50, Fin 1.10, Fin 0.80, Fin 0.50, Fin 0.25, Fin 0.05, Fin 0.01]"
| "RATES Services =
     [Fin 1.50, Fin 0.80, Fin 0.45, Fin 0.25, Fin 0.10, Fin 0.05, Fin 0.01]"
| "RATES Works =
     [Fin 1.00, Fin 0.70, Fin 0.55, Fin 0.35, Fin 0.20, Fin 0.05, Fin 0.01]"

section \<open>The calculation\<close>

record BreakdownItem =
  tierLabel :: string
  ratePercent :: string
  amountInTier :: number
  feeForTier :: number

record Result =
  originalTotalFee :: number
  discountedFee :: number
  bidAmount :: number
  breakdown :: "BreakdownItem list"
  discountRate :: number

text \<open>
  The \<open>for\<close> loop over \<open>TIERS\<close>, from index \<open>i\<close> on. The loop variables are the
  arguments; the result is what the code reads after the loop: the total fee and the
  breakdown. The second branch is the \<open>break\<close>. The loop's variables
  \<open>originalTotalFee\<close>, \<open>breakdown\<close>, \<open>ratePercent\<close>, \<open>amountInTier\<close> and \<open>feeForTier\<close>
  are written \<open>totalFee\<close>, \<open>items\<close>, \<open>rate\<close>, \<open>amount\<close> and \<open>fee\<close>, because the
  field names of the records are taken. Both array reads are in range:
  \<open>i < length TIERS\<close> is the loop condition, and every rate table has the length of
  \<open>TIERS\<close> (lemma \<open>RATES_length\<close>).
\<close>

function loop ::
  "number list \<Rightarrow> nat \<Rightarrow> number \<Rightarrow> number \<Rightarrow> BreakdownItem list \<Rightarrow> number
     \<Rightarrow> number \<times> BreakdownItem list" where
  "loop currentRates i remainingAmount totalFee items previousLimit =
     (if i < length TIERS then
        let tier = TIERS ! i;
            rate = currentRates ! i;
            rateDecimal = rate / Fin 100;
            tierSpan = limit tier - previousLimit;
            amount = Math_min (Math_max (Fin 0) remainingAmount) tierSpan
        in if Fin 0 < amount then
             let fee = amount * rateDecimal
             in loop currentRates (i + 1) (remainingAmount - amount) (totalFee + fee)
                  (items @ [\<lparr>tierLabel = label tier,
                             ratePercent = toFixed rate 2 @ ''%'',
                             amountInTier = amount,
                             feeForTier = fee\<rparr>])
                  (limit tier)
           else if remainingAmount \<le> Fin 0 \<and> 0 < i then (totalFee, items)
           else loop currentRates (i + 1) remainingAmount totalFee items (limit tier)
      else (totalFee, items))"
  by pat_completeness auto
termination
  by (relation "measure (\<lambda>(currentRates, i, r, t, b, p). length TIERS - i)") auto

declare loop.simps [simp del]

text \<open>
  The memoised calculation of the component. Its inputs are the component's state:
  the service type, the unit, and the two text fields, taken here as the numbers that
  \<open>parseFloat\<close> returns for them. \<open>None\<close> is the \<open>null\<close> that the code returns.
  As in the loop, the variables \<open>bidAmount\<close>, \<open>discountRate\<close> and \<open>discountedFee\<close> are
  written \<open>amount\<close>, \<open>rate\<close> and \<open>discounted\<close>.
\<close>

definition calculationResult ::
  "ServiceType \<Rightarrow> number \<Rightarrow> InputUnit \<Rightarrow> number \<Rightarrow> Result option" where
  "calculationResult serviceType rawValue unit discount =
     (if isNaN rawValue \<or> rawValue < Fin 0 then None
      else
        let amount = (if unit = Wanyuan then rawValue * Fin 10000 else rawValue);
            currentRates = RATES serviceType;
            (totalFee, items) = loop currentRates 0 amount (Fin 0) [] (Fin 0);
            rate = (if isNaN discount \<or> discount < Fin 0 then Fin 100 else discount);
            discounted = totalFee * (rate / Fin 100)
        in Some \<lparr>originalTotalFee = totalFee,
                 discountedFee = discounted,
                 bidAmount = amount,
                 breakdown = items,
                 discountRate = rate\<rparr>)"

section \<open>The calculation in binary64\<close>

text \<open>
  The definitions above compute with exact reals. A JavaScript number is a binary64
  value, and every \<open>+\<close>, \<open>-\<close>, \<open>*\<close> and \<open>/\<close> returns the exact result rounded to the
  nearest such value, to the even significand on a tie. This section models that
  rounding and repeats the calculation with it, for the statements that give figures
  to the last digit.
\<close>

subsection \<open>Rounding to the nearest binary64 value\<close>

text \<open>\<open>expo a\<close> is the binary exponent of \<open>a > 0\<close>: \<open>2 ^ expo a \<le> a < 2 ^ (expo a + 1)\<close>.\<close>

function expo :: "real \<Rightarrow> int" where
  "expo a = (if 2 \<le> a then expo (a / 2) + 1
             else if 0 < a \<and> a < 1 then expo (2 * a) - 1
             else 0)"
  by pat_completeness auto
termination
proof (relation "measure (\<lambda>a. nat \<bar>\<lfloor>log 2 a\<rfloor>\<bar>)")
  show "wf (measure (\<lambda>a. nat \<bar>\<lfloor>log 2 a\<rfloor>\<bar>))"
    by simp
next
  fix a :: real
  assume a: "2 \<le> a"
  define k where "k = \<lfloor>log 2 a\<rfloor>"
  from a have "1 \<le> log 2 a"
    by (simp add: le_log_iff)
  then have k: "1 \<le> k"
    by (simp add: k_def le_floor_iff)
  from a have "log 2 (a / 2) = log 2 a - 1"
    by (simp add: log_divide)
  then have "\<lfloor>log 2 (a / 2)\<rfloor> = k - 1"
    by (simp add: k_def)
  with k show "(a / 2, a) \<in> measure (\<lambda>a. nat \<bar>\<lfloor>log 2 a\<rfloor>\<bar>)"
    unfolding in_measure k_def [symmetric] by simp
next
  fix a :: real
  assume a: "\<not> 2 \<le> a" "0 < a \<and> a < 1"
  define k where "k = \<lfloor>log 2 a\<rfloor>"
  from a have "log 2 a < 0"
    by simp
  then have k: "k < 0"
    by (simp add: k_def floor_less_iff)
  from a have "log 2 (2 * a) = log 2 a + 1"
    by (simp add: log_mult)
  then have "\<lfloor>log 2 (2 * a)\<rfloor> = k + 1"
    by (simp add: k_def)
  with k show "(2 * a, a) \<in> measure (\<lambda>a. nat \<bar>\<lfloor>log 2 a\<rfloor>\<bar>)"
    unfolding in_measure k_def [symmetric] by simp
qed

declare expo.simps [simp del]

text \<open>The power \<open>2 ^ k\<close> for an integer \<open>k\<close>.\<close>

definition pow2 :: "int \<Rightarrow> real" where
  "pow2 k = (if 0 \<le> k then 2 ^ nat k else 1 / 2 ^ nat (- k))"

text \<open>The nearest integer, the even one on a tie.\<close>

definition roundTiesToEven :: "real \<Rightarrow> int" where
  "roundTiesToEven x =
     (let f = \<lfloor>x\<rfloor>; d = x - of_int f
      in if d < 1 / 2 then f else if 1 / 2 < d then f + 1 else if even f then f else f + 1)"

text \<open>
  A binary64 value has a significand of 53 bits and an exponent from -1022 to 1023. A
  real \<open>x\<close> with exponent \<open>e\<close> is rounded on the grid of step \<open>2 ^ (e - 52)\<close>; below
  \<open>2 ^ (- 1022)\<close> the step stays \<open>2 ^ (- 1074)\<close> (subnormal values). A result that
  reaches \<open>2 ^ 1024\<close> overflows to an infinity.
\<close>

definition round64 :: "real \<Rightarrow> number" where
  "round64 x =
     (if x = 0 then Fin 0
      else
        let a = \<bar>x\<bar>;
            e = max (expo a) (- 1022);
            q = pow2 (e - 52);
            y = of_int (roundTiesToEven (a / q)) * q
        in if pow2 1024 \<le> y then (if 0 < x then Infinity else NegInfinity)
           else Fin (if 0 < x then y else - y))"

text \<open>Rounding leaves the non-finite values as they are.\<close>

fun rnd :: "number \<Rightarrow> number" where
  "rnd (Fin r) = round64 r"
| "rnd x = x"

subsection \<open>The loop and the calculation, rounded\<close>

text \<open>
  The loop as above, with each arithmetic result rounded. Comparisons, \<open>Math.min\<close> and
  \<open>Math.max\<close> are exact in binary64 and stay as they are.
\<close>

function loop64 ::
  "number list \<Rightarrow> nat \<Rightarrow> number \<Rightarrow> number \<Rightarrow> BreakdownItem list \<Rightarrow> number
     \<Rightarrow> number \<times> BreakdownItem list" where
  "loop64 currentRates i remainingAmount totalFee items previousLimit =
     (if i < length TIERS then
        let tier = TIERS ! i;
            rate = currentRates ! i;
            rateDecimal = rnd (rate / Fin 100);
            tierSpan = rnd (limit tier - previousLimit);
            amount = Math_min (Math_max (Fin 0) remainingAmount) tierSpan
        in if Fin 0 < amount then
             let fee = rnd (amount * rateDecimal)
             in loop64 currentRates (i + 1) (rnd (remainingAmount - amount))
                  (rnd (totalFee + fee))
                  (items @ [\<lparr>tierLabel = label tier,
                             ratePercent = toFixed rate 2 @ ''%'',
                             amountInTier = amount,
                             feeForTier = fee\<rparr>])
                  (limit tier)
           else if remainingAmount \<le> Fin 0 \<and> 0 < i then (totalFee, items)
           else loop64 currentRates (i + 1) remainingAmount totalFee items (limit tier)
      else (totalFee, items))"
  by pat_completeness auto
termination
  by (relation "measure (\<lambda>(currentRates, i, r, t, b, p). length TIERS - i)") auto

declare loop64.simps [simp del]

text \<open>
  The calculation as above. The two parsed inputs are taken to be binary64 values, as
  \<open>parseFloat\<close> returns them; the decimal literals of the rate tables are rounded to
  binary64 when read, as the parser of the language does; the limits and the literals 0,
  100 and 10000 are binary64 values already.
\<close>

definition calculationResult64 ::
  "ServiceType \<Rightarrow> number \<Rightarrow> InputUnit \<Rightarrow> number \<Rightarrow> Result option" where
  "calculationResult64 serviceType rawValue unit discount =
     (if isNaN rawValue \<or> rawValue < Fin 0 then None
      else
        let amount = (if unit = Wanyuan then rnd (rawValue * Fin 10000) else rawValue);
            currentRates = map rnd (RATES serviceType);
            (totalFee, items) = loop64 currentRates 0 amount (Fin 0) [] (Fin 0);
            rate = (if isNaN discount \<or> discount < Fin 0 then Fin 100 else discount);
            discounted = rnd (totalFee * rnd (rate / Fin 100))
        in Some \<lparr>originalTotalFee = totalFee,
                 discountedFee = discounted,
                 bidAmount = amount,
                 breakdown = items,
                 discountRate = rate\<rparr>)"

section \<open>Auxiliary facts\<close>

subsection \<open>Arithmetic on finite numbers\<close>

lemma times_Fin_1: "x * Fin 1 = x"
  by (cases x) simp_all

lemma Math_max_Fin [simp]: "Math_max (Fin a) (Fin b) = Fin (max a b)"
  by (simp add: Math_max_def max_def)

lemma Math_min_Fin [simp]: "Math_min (Fin a) (Fin b) = Fin (min a b)"
  by (simp add: Math_min_def min_def)

lemma Math_min_Infinity [simp]: "Math_min (Fin a) Infinity = Fin a"
  by (simp add: Math_min_def)

lemma minus_Fin [simp]: "Fin a - Fin b = Fin (a - b)"
  by (simp add: minus_number_def)

lemma Infinity_minus_Fin [simp]: "Infinity - Fin b = Infinity"
  by (simp add: minus_number_def)

subsection \<open>The loop, one step at a time\<close>

lemma loop_unfold:
  "loop currentRates i remainingAmount totalFee items previousLimit =
     (if i < length TIERS then
        if Fin 0 < Math_min (Math_max (Fin 0) remainingAmount) (limit (TIERS ! i) - previousLimit) then
             loop currentRates (i + 1) (remainingAmount - Math_min (Math_max (Fin 0) remainingAmount) (limit (TIERS ! i) - previousLimit)) 
                (totalFee + Math_min (Math_max (Fin 0) remainingAmount) (limit (TIERS ! i) - previousLimit) * (currentRates ! i / Fin 100))
                  (items @ [\<lparr>tierLabel = label (TIERS ! i),
                             ratePercent = toFixed (currentRates ! i) 2 @ ''%'',
                             amountInTier = Math_min (Math_max (Fin 0) remainingAmount) (limit (TIERS ! i) - previousLimit),
                             feeForTier = Math_min (Math_max (Fin 0) remainingAmount) (limit (TIERS ! i) - previousLimit) * (currentRates ! i / Fin 100)\<rparr>])
                  (limit (TIERS ! i))
           else if remainingAmount \<le> Fin 0 \<and> 0 < i then (totalFee, items)
           else loop currentRates (i + 1) remainingAmount totalFee items (limit (TIERS ! i))
      else (totalFee, items))"
  by (subst loop.simps) (simp add: Let_def)

subsection \<open>The tables\<close>

lemma TIERS_length: "length TIERS = 7"
  by (simp add: TIERS_def)

lemma below_7: "i < 7 \<Longrightarrow> i = 0 \<or> i = 1 \<or> i = 2 \<or> i = 3 \<or> i = 4 \<or> i = 5 \<or> i = (6::nat)"
  by arith

lemma TIERS_limit: "i < 6 \<Longrightarrow> \<exists>l. limit (TIERS ! i) = Fin l"
  using below_7 [of i] by (auto simp: TIERS_def)

lemma TIERS_last: "limit (TIERS ! 6) = Infinity"
  by (simp add: TIERS_def)

lemma RATES_length: "length (RATES serviceType) = length TIERS"
  by (cases serviceType) (simp_all add: TIERS_def)

lemma Fin_cases: "Fin 0 \<le> x \<Longrightarrow> x < Infinity \<Longrightarrow> \<exists>q. x = Fin q \<and> 0 \<le> q"
  by (cases x) simp_all

lemma RATES_bounds: "i < 7 \<Longrightarrow> Fin 0 \<le> RATES serviceType ! i \<and> RATES serviceType ! i < Infinity"
  using below_7 [of i] by (cases serviceType) auto

lemma RATES_nonneg: "i < 7 \<Longrightarrow> \<exists>q. RATES serviceType ! i = Fin q \<and> 0 \<le> q"
  using RATES_bounds [of i serviceType] by (simp add: Fin_cases)

subsection \<open>Invariants of the loop on a finite amount\<close>

lemma loop_end: "\<not> i < length TIERS \<Longrightarrow> loop rs i r t b p = (t, b)"
  by (subst loop.simps) simp

lemma loop_inner:
  assumes "i < length TIERS" "limit (TIERS ! i) = Fin l" "rs ! i = Fin q" "0 \<le> r"
  shows "loop rs i (Fin r) (Fin t) b (Fin p) =
     (if 0 < min r (l - p) then
        loop rs (i + 1) (Fin (r - min r (l - p))) (Fin (t + min r (l - p) * (q / 100)))
          (b @ [\<lparr>tierLabel = label (TIERS ! i), ratePercent = toFixed (rs ! i) 2 @ ''%'',
                 amountInTier = Fin (min r (l - p)),
                 feeForTier = Fin (min r (l - p) * (q / 100))\<rparr>]) (Fin l)
      else if r \<le> 0 \<and> 0 < i then (Fin t, b)
      else loop rs (i + 1) (Fin r) (Fin t) b (Fin l))"
  using assms by (subst loop_unfold) (simp add: max_absorb2 split del: if_split cong: if_cong)

lemma loop_last:
  assumes "i < length TIERS" "limit (TIERS ! i) = Infinity" "rs ! i = Fin q" "0 \<le> r"
  shows "loop rs i (Fin r) (Fin t) b (Fin p) =
     (if 0 < r then
        loop rs (i + 1) (Fin 0) (Fin (t + r * (q / 100)))
          (b @ [\<lparr>tierLabel = label (TIERS ! i), ratePercent = toFixed (rs ! i) 2 @ ''%'',
                 amountInTier = Fin r,
                 feeForTier = Fin (r * (q / 100))\<rparr>]) Infinity
      else if r \<le> 0 \<and> 0 < i then (Fin t, b)
      else loop rs (i + 1) (Fin r) (Fin t) b Infinity)"
  using assms by (subst loop_unfold) (simp add: max_absorb2 split del: if_split cong: if_cong)

lemma loop_sum:
  "length TIERS - i = n \<Longrightarrow> i < length TIERS \<Longrightarrow> 0 \<le> r \<Longrightarrow>
   \<exists>t' xs. loop (RATES s) i (Fin r) (Fin t) b (Fin p) = (Fin t', b @ xs) \<and>
     sum_list (map amountInTier xs) = Fin r \<and> t \<le> t'"
proof (induction n arbitrary: i r t b p)
  case 0
  then show ?case by simp
next
  case (Suc n)
  from Suc.prems have i7: "i < 7" by (simp add: TIERS_length)
  then obtain q where q: "RATES s ! i = Fin q" "0 \<le> q"
    using RATES_nonneg by blast
  show ?case
  proof (cases "i = 6")
    case True
    then show ?thesis
      using Suc.prems q
      by (simp add: loop_last TIERS_last loop_end TIERS_length zero_number_def)
  next
    case False
    with i7 have i6: "i < 6" by simp
    then obtain l where l: "limit (TIERS ! i) = Fin l"
      using TIERS_limit by blast
    have n: "length TIERS - (i + 1) = n" "i + 1 < length TIERS"
      using Suc.prems i6 by (simp_all add: TIERS_length)
    show ?thesis
    proof (cases "0 < min r (l - p)")
      case True
      let ?a = "min r (l - p)"
      let ?b = "b @ [\<lparr>tierLabel = label (TIERS ! i), ratePercent = toFixed (RATES s ! i) 2 @ ''%'',
                 amountInTier = Fin ?a, feeForTier = Fin (?a * (q / 100))\<rparr>]"
      have "0 \<le> r - ?a" by simp
      from Suc.IH [OF n this, of "t + ?a * (q / 100)" ?b l]
      obtain t' xs where *:
        "loop (RATES s) (i + 1) (Fin (r - ?a)) (Fin (t + ?a * (q / 100))) ?b (Fin l)
           = (Fin t', ?b @ xs)"
        "sum_list (map amountInTier xs) = Fin (r - ?a)"
        and "t + ?a * (q / 100) \<le> t'"
        by blast
      moreover have "0 \<le> ?a * (q / 100)" using True q by simp
      ultimately have "t \<le> t'" by linarith
      with * show ?thesis
        using True Suc.prems l q by (simp add: loop_inner)
    next
      case False
      show ?thesis
      proof (cases "r \<le> 0 \<and> 0 < i")
        case True
        then show ?thesis
          using False Suc.prems l q by (simp add: loop_inner zero_number_def)
      next
        case nb: False
        from Suc.IH [OF n \<open>0 \<le> r\<close>, of t b l]
        show ?thesis
          using False nb Suc.prems l q by (auto simp add: loop_inner zero_number_def)
      qed
    qed
  qed
qed


lemma loop_gain:
  assumes "i < length TIERS" "0 \<le> r"
  shows "\<exists>t'. fst (loop (RATES s) i (Fin r) (Fin t) b (Fin p)) = Fin t' \<and> t \<le> t'"
  using loop_sum [OF refl assms, of s t b p] by auto

lemma loop_mono:
  "length TIERS - i = n \<Longrightarrow> i < length TIERS \<Longrightarrow> 0 \<le> a \<Longrightarrow> a \<le> b \<Longrightarrow>
   \<exists>ta tb. fst (loop (RATES s) i (Fin a) (Fin t) xs (Fin p)) = Fin ta \<and>
     fst (loop (RATES s) i (Fin b) (Fin u) ys (Fin p)) = Fin tb \<and> ta - t \<le> tb - u"
proof (induction n arbitrary: i a b t u xs ys p)
  case 0
  then show ?case by simp
next
  case (Suc n)
  from Suc.prems have i7: "i < 7" and b0: "0 \<le> b"
    by (simp_all add: TIERS_length)
  then obtain q where q: "RATES s ! i = Fin q" "0 \<le> q"
    using RATES_nonneg by blast
  then have q': "0 \<le> q / 100" by simp
  show ?case
  proof (cases "i = 6")
    case True
    have "a * (q / 100) \<le> b * (q / 100)"
      using \<open>a \<le> b\<close> q' by (rule mult_right_mono)
    moreover have "0 \<le> b * (q / 100)"
      using b0 q' by (rule mult_nonneg_nonneg)
    ultimately show ?thesis
      using True Suc.prems b0 q(1)
      by (simp add: loop_last TIERS_last loop_end TIERS_length)
  next
    case False
    with i7 have i6: "i < 6" by simp
    then obtain l where l: "limit (TIERS ! i) = Fin l"
      using TIERS_limit by blast
    have n: "length TIERS - (i + 1) = n" "i + 1 < length TIERS"
      using Suc.prems i6 by (simp_all add: TIERS_length)
    let ?ma = "min a (l - p)" and ?mb = "min b (l - p)"
    let ?xs = "xs @ [\<lparr>tierLabel = label (TIERS ! i), ratePercent = toFixed (RATES s ! i) 2 @ ''%'',
                 amountInTier = Fin ?ma, feeForTier = Fin (?ma * (q / 100))\<rparr>]"
    let ?ys = "ys @ [\<lparr>tierLabel = label (TIERS ! i), ratePercent = toFixed (RATES s ! i) 2 @ ''%'',
                 amountInTier = Fin ?mb, feeForTier = Fin (?mb * (q / 100))\<rparr>]"
    have stepa: "loop (RATES s) i (Fin a) (Fin t) xs (Fin p) =
       (if 0 < ?ma then loop (RATES s) (i + 1) (Fin (a - ?ma)) (Fin (t + ?ma * (q / 100))) ?xs (Fin l)
        else if a \<le> 0 \<and> 0 < i then (Fin t, xs)
        else loop (RATES s) (i + 1) (Fin a) (Fin t) xs (Fin l))"
      by (rule loop_inner [OF Suc.prems(2) l q(1) Suc.prems(3)])
    have stepb: "loop (RATES s) i (Fin b) (Fin u) ys (Fin p) =
       (if 0 < ?mb then loop (RATES s) (i + 1) (Fin (b - ?mb)) (Fin (u + ?mb * (q / 100))) ?ys (Fin l)
        else if b \<le> 0 \<and> 0 < i then (Fin u, ys)
        else loop (RATES s) (i + 1) (Fin b) (Fin u) ys (Fin l))"
      by (rule loop_inner [OF Suc.prems(2) l q(1) b0])
    have mono: "?ma * (q / 100) \<le> ?mb * (q / 100)"
      using \<open>a \<le> b\<close> q' by (intro mult_right_mono) auto
    show ?thesis
    proof (cases "0 < ?mb")
      case mb: True
      then have mb0: "0 \<le> ?mb * (q / 100)"
        using q' by (intro mult_nonneg_nonneg) auto
      show ?thesis
      proof (cases "0 < ?ma")
        case True
        have "0 \<le> a - ?ma" "a - ?ma \<le> b - ?mb"
          using \<open>a \<le> b\<close> by auto
        from Suc.IH [OF n this, of "t + ?ma * (q / 100)" ?xs l "u + ?mb * (q / 100)" ?ys]
        obtain ta tb where
          "fst (loop (RATES s) (i + 1) (Fin (a - ?ma)) (Fin (t + ?ma * (q / 100))) ?xs (Fin l)) = Fin ta"
          "fst (loop (RATES s) (i + 1) (Fin (b - ?mb)) (Fin (u + ?mb * (q / 100))) ?ys (Fin l)) = Fin tb"
          "ta - (t + ?ma * (q / 100)) \<le> tb - (u + ?mb * (q / 100))"
          by blast
        moreover from this(3) mono have "ta - t \<le> tb - u" by linarith
        ultimately show ?thesis
          using True mb by (simp only: stepa stepb if_True simp_thms) blast
      next
        case ma: False
        show ?thesis
        proof (cases "a \<le> 0 \<and> 0 < i")
          case True
          from loop_gain [OF n(2), of "b - ?mb" s "u + ?mb * (q / 100)" ?ys l]
          obtain tb where
            "fst (loop (RATES s) (i + 1) (Fin (b - ?mb)) (Fin (u + ?mb * (q / 100))) ?ys (Fin l)) = Fin tb"
            "u + ?mb * (q / 100) \<le> tb"
            by auto
          moreover from this(2) mb0 have "t - t \<le> tb - u" by linarith
          ultimately show ?thesis
            using True ma mb by (simp only: stepa stepb if_True if_False fst_conv simp_thms) blast
        next
          case False
          have "0 \<le> a" "a \<le> b - ?mb"
            using Suc.prems ma mb by auto
          from Suc.IH [OF n this, of t xs l "u + ?mb * (q / 100)" ?ys]
          obtain ta tb where
            "fst (loop (RATES s) (i + 1) (Fin a) (Fin t) xs (Fin l)) = Fin ta"
            "fst (loop (RATES s) (i + 1) (Fin (b - ?mb)) (Fin (u + ?mb * (q / 100))) ?ys (Fin l)) = Fin tb"
            "ta - t \<le> tb - (u + ?mb * (q / 100))"
            by blast
          moreover from this(3) mb0 have "ta - t \<le> tb - u" by linarith
          ultimately show ?thesis
            using False ma mb by (simp only: stepa stepb if_True if_False simp_thms) blast
        qed
      qed
    next
      case mb: False
      then have ma: "\<not> 0 < ?ma"
        using \<open>a \<le> b\<close> by auto
      show ?thesis
      proof (cases "a \<le> 0 \<and> 0 < i")
        case True
        show ?thesis
        proof (cases "b \<le> 0 \<and> 0 < i")
          case bb: True
          have "t - t \<le> u - u" by simp
          then show ?thesis
            using True bb ma mb by (simp only: stepa stepb if_True if_False fst_conv simp_thms) blast
        next
          case bb: False
          from loop_gain [OF n(2) b0, of s u ys l]
          obtain tb where
            "fst (loop (RATES s) (i + 1) (Fin b) (Fin u) ys (Fin l)) = Fin tb" "u \<le> tb"
            by auto
          moreover from this(2) have "t - t \<le> tb - u" by simp
          ultimately show ?thesis
            using True bb ma mb by (simp only: stepa stepb if_True if_False fst_conv simp_thms) blast
        qed
      next
        case False
        then have bb: "\<not> (b \<le> 0 \<and> 0 < i)"
          using \<open>a \<le> b\<close> by auto
        from Suc.IH [OF n \<open>0 \<le> a\<close> \<open>a \<le> b\<close>, of t xs l u ys]
        show ?thesis
          using False bb ma mb by (simp only: stepa stepb if_True if_False simp_thms)
      qed
    qed
  qed
qed

lemma loop_prefix:
  assumes "i < length TIERS" "0 \<le> r"
  shows "\<exists>xs. snd (loop (RATES s) i (Fin r) (Fin t) b (Fin p)) = b @ xs"
  using loop_sum [OF refl assms, of s t b p] by auto

lemma loop_zero: "loop (RATES s) 0 (Fin 0) (Fin 0) [] (Fin 0) = (Fin 0, [])"
  by (simp add: loop_unfold TIERS_def)

lemma loop_keeps:
  assumes "i < length TIERS" "0 \<le> r" "b \<noteq> []"
  shows "snd (loop (RATES s) i (Fin r) (Fin t) b (Fin p)) \<noteq> []"
  using loop_prefix [OF assms(1,2), of s t b p] assms(3) by auto

lemma loop_positive:
  assumes "0 < r"
  shows "snd (loop (RATES s) 0 (Fin r) (Fin 0) [] (Fin 0)) \<noteq> []"
proof -
  obtain q where q: "RATES s ! 0 = Fin q"
    using RATES_nonneg [of 0 s] by auto
  have l: "limit (TIERS ! 0) = Fin 1000000" "0 < length TIERS"
    by (simp_all add: TIERS_def)
  show ?thesis
    using assms by (simp add: loop_inner [OF l(2) l(1) q] loop_keeps TIERS_length)
qed

subsection \<open>Evaluation on concrete inputs\<close>

lemma decimal_small: "n < 10 \<Longrightarrow> decimal n = [digit_char n]"
  by (subst decimal.simps) simp

lemma decimal_large: "\<not> n < 10 \<Longrightarrow> decimal n = decimal (n div 10) @ [digit_char (n mod 10)]"
  by (subst decimal.simps) simp

lemmas evaluation =
  calculationResult_def loop_unfold TIERS_def Math_min_def Math_max_def minus_number_def
  toFixed_def Let_def decimal_small decimal_large digit_char_def

lemma labels_distinct: "distinct (map label TIERS)"
  by (simp add: TIERS_def wan_def yuan_def yi_def yixia_def yishang_def)

lemma boundary_loop_Goods:
  assumes "k < 7"
  shows "\<exists>t xs. loop (RATES Goods) 0 (limit (TIERS ! k)) (Fin 0) [] (Fin 0) = (t, xs) \<and>
           map tierLabel xs = map label (take (Suc k) TIERS) \<and>
           sum_list (map amountInTier xs) = limit (TIERS ! k)"
  using below_7 [OF assms] by (elim disjE; simp add: loop_unfold TIERS_def Math_min_def Math_max_def minus_number_def)

lemma boundary_loop_Services:
  assumes "k < 7"
  shows "\<exists>t xs. loop (RATES Services) 0 (limit (TIERS ! k)) (Fin 0) [] (Fin 0) = (t, xs) \<and>
           map tierLabel xs = map label (take (Suc k) TIERS) \<and>
           sum_list (map amountInTier xs) = limit (TIERS ! k)"
  using below_7 [OF assms] by (elim disjE; simp add: loop_unfold TIERS_def Math_min_def Math_max_def minus_number_def)

lemma boundary_loop_Works:
  assumes "k < 7"
  shows "\<exists>t xs. loop (RATES Works) 0 (limit (TIERS ! k)) (Fin 0) [] (Fin 0) = (t, xs) \<and>
           map tierLabel xs = map label (take (Suc k) TIERS) \<and>
           sum_list (map amountInTier xs) = limit (TIERS ! k)"
  using below_7 [OF assms] by (elim disjE; simp add: loop_unfold TIERS_def Math_min_def Math_max_def minus_number_def)

lemma boundary_loop:
  assumes "k < 7"
  shows "\<exists>t xs. loop (RATES s) 0 (limit (TIERS ! k)) (Fin 0) [] (Fin 0) = (t, xs) \<and>
           map tierLabel xs = map label (take (Suc k) TIERS) \<and>
           sum_list (map amountInTier xs) = limit (TIERS ! k)"
  using assms boundary_loop_Goods boundary_loop_Services boundary_loop_Works
  by (cases s) blast+

subsection \<open>Evaluation of the rounded calculation\<close>

lemma expo_big: "2 \<le> a \<Longrightarrow> expo a = expo (a / 2) + 1"
  by (subst expo.simps) simp

lemma expo_small: "0 < a \<Longrightarrow> a < 1 \<Longrightarrow> expo a = expo (2 * a) - 1"
  by (subst expo.simps) simp

lemma expo_unit: "1 \<le> a \<Longrightarrow> a < 2 \<Longrightarrow> expo a = 0"
  by (subst expo.simps) simp

lemmas round64_eval = round64_def roundTiesToEven_def pow2_def Let_def expo_big expo_small expo_unit

text \<open>
  The rounding at work: the literal \<open>1.1\<close> is the binary64 value with the significand
  \<open>0x1199999999999A\<close>, integers up to \<open>2 ^ 53\<close> are kept, and a tie goes to the even
  significand, downwards at \<open>2 ^ 53 + 1\<close> and upwards at \<open>2 ^ 53 + 3\<close>.
\<close>

lemma round64_examples:
  "round64 (11 / 10) = Fin (4953959590107546 / 2 ^ 52)"
  "round64 6000000 = Fin 6000000"
  "round64 (2 ^ 53 + 1) = Fin (2 ^ 53)"
  "round64 (2 ^ 53 + 3) = Fin (2 ^ 53 + 4)"
  "round64 (- (1 / 10)) = Fin (- (3602879701896397 / 2 ^ 55))"
  by (simp_all add: round64_eval)

lemma loop64_unfold:
  "loop64 rs i r t b p =
     (if i < length TIERS then
        if Fin 0 < Math_min (Math_max (Fin 0) r) (rnd (limit (TIERS ! i) - p)) then
          loop64 rs (i + 1)
            (rnd (r - Math_min (Math_max (Fin 0) r) (rnd (limit (TIERS ! i) - p))))
            (rnd (t + rnd (Math_min (Math_max (Fin 0) r) (rnd (limit (TIERS ! i) - p))
                            * rnd (rs ! i / Fin 100))))
            (b @ [\<lparr>tierLabel = label (TIERS ! i),
                   ratePercent = toFixed (rs ! i) 2 @ ''%'',
                   amountInTier = Math_min (Math_max (Fin 0) r) (rnd (limit (TIERS ! i) - p)),
                   feeForTier = rnd (Math_min (Math_max (Fin 0) r) (rnd (limit (TIERS ! i) - p))
                                      * rnd (rs ! i / Fin 100))\<rparr>])
            (limit (TIERS ! i))
        else if r \<le> Fin 0 \<and> 0 < i then (t, b)
        else loop64 rs (i + 1) r t b (limit (TIERS ! i))
      else (t, b))"
  by (subst loop64.simps) (simp add: Let_def)

lemma loop64_Goods_6000000:
  "loop64 (map rnd (RATES Goods)) 0 (Fin 6000000) (Fin 0) [] (Fin 0) =
     (Fin 67000,
      [\<lparr>tierLabel = ''100'' @ wan @ yuan @ yixia, ratePercent = ''1.50%'',
        amountInTier = Fin 1000000, feeForTier = Fin 15000\<rparr>,
       \<lparr>tierLabel = ''100-500'' @ wan @ yuan, ratePercent = ''1.10%'',
        amountInTier = Fin 4000000, feeForTier = Fin (44000 + 1 / 2 ^ 37)\<rparr>,
       \<lparr>tierLabel = ''500-1000'' @ wan @ yuan, ratePercent = ''0.80%'',
        amountInTier = Fin 1000000, feeForTier = Fin 8000\<rparr>])"
  by (simp add: loop64_unfold round64_eval evaluation)

section \<open>The claims\<close>

text \<open>
  In the theorems below \<open>s\<close> is the service type, \<open>unit\<close> the unit of the amount field
  and \<open>d\<close> the parsed discount field. The base amount of the specification is the field
  \<open>bidAmount\<close> of the result, \<open>originalFee\<close> is \<open>originalTotalFee\<close>, and the effective
  discount percentage is \<open>discountRate\<close>. The statements are about the calculation over
  exact arithmetic, except the scenario C2, whose figures are those of the rounded
  calculation.
\<close>

text \<open>
  C1. Conservation: for every service type and every finite amount \<open>r \<ge> 0\<close>, in either
  unit, a result is produced, its base amount is \<open>r\<close> (times 10,000 in the unit
  wanyuan), and the amounts of its breakdown entries add up to that base amount,
  exactly, over exact arithmetic.
\<close>

theorem conservation:
  assumes "0 \<le> r"
  shows "\<exists>res. calculationResult s (Fin r) unit d = Some res \<and>
           bidAmount res = (if unit = Wanyuan then Fin (r * 10000) else Fin r) \<and>
           sum_list (map amountInTier (breakdown res)) =
             (if unit = Wanyuan then Fin (r * 10000) else Fin r)"
proof -
  define a where "a = (if unit = Wanyuan then r * 10000 else r)"
  have a: "0 \<le> a" "(if unit = Wanyuan then Fin r * Fin 10000 else Fin r) = Fin a"
    "(if unit = Wanyuan then Fin (r * 10000) else Fin r) = Fin a"
    using assms by (simp_all add: a_def)
  have "0 < length TIERS"
    by (simp add: TIERS_length)
  from loop_sum [OF refl this a(1), of s 0 "[]" 0]
  show ?thesis
    using assms by (auto simp add: calculationResult_def a(2,3))
qed

theorem conservation_witness:
  "(0::real) \<le> 6000000 \<and> (0::real) \<le> 600 \<and>
   (\<exists>res. calculationResult Goods (Fin 6000000) Yuan (Fin 85) = Some res \<and>
      bidAmount res = Fin 6000000 \<and>
      sum_list (map amountInTier (breakdown res)) = Fin 6000000) \<and>
   (\<exists>res. calculationResult Works (Fin 600) Wanyuan (Fin 85) = Some res \<and>
      bidAmount res = Fin 6000000 \<and>
      sum_list (map amountInTier (breakdown res)) = Fin 6000000)"
  using conservation [where r = 6000000 and s = Goods and unit = Yuan and d = "Fin 85"]
    conservation [where r = 600 and s = Works and unit = Wanyuan and d = "Fin 85"]
  by simp

text \<open>
  C2, as stated, fails in the arithmetic of the code: for goods, 6,000,000 yuan and
  discount 85, the fee of the second entry is the binary64 product of 4,000,000 and
  \<open>1.1 / 100\<close>, which is not 44,000, so the three fees are not 15,000, 44,000 and 8,000.
\<close>

theorem scenario_goods_fees:
  "map_option (map feeForTier \<circ> breakdown)
      (calculationResult64 Goods (Fin 6000000) Yuan (Fin 85))
     \<noteq> Some [Fin 15000, Fin 44000, Fin 8000]"
  by (simp add: calculationResult64_def loop64_Goods_6000000 del: RATES.simps)

text \<open>
  C2, amended. For goods, 6,000,000 yuan and discount 85 the breakdown has exactly
  three entries: 1,000,000 at 1.50% with fee 15,000; 4,000,000 at 1.10% with fee
  \<open>44000 + 2 ^ (- 37)\<close>, one unit in the last place above 44,000 (printed
  44000.00000000001); and 1,000,000 at 0.80% with fee 8,000. The fee is 67,000 and the
  discounted fee 56,950.
\<close>

theorem scenario_goods:
  "calculationResult64 Goods (Fin 6000000) Yuan (Fin 85) =
     Some \<lparr>originalTotalFee = Fin 67000,
           discountedFee = Fin 56950,
           bidAmount = Fin 6000000,
           breakdown =
             [\<lparr>tierLabel = ''100'' @ wan @ yuan @ yixia, ratePercent = ''1.50%'',
               amountInTier = Fin 1000000, feeForTier = Fin 15000\<rparr>,
              \<lparr>tierLabel = ''100-500'' @ wan @ yuan, ratePercent = ''1.10%'',
               amountInTier = Fin 4000000, feeForTier = Fin (44000 + 1 / 2 ^ 37)\<rparr>,
              \<lparr>tierLabel = ''500-1000'' @ wan @ yuan, ratePercent = ''0.80%'',
               amountInTier = Fin 1000000, feeForTier = Fin 8000\<rparr>],
           discountRate = Fin 85\<rparr>"
  by (simp add: calculationResult64_def loop64_Goods_6000000 round64_eval del: RATES.simps)

text \<open>
  C3, as stated, fails: an amount of \<open>Infinity\<close> is neither \<open>NaN\<close> nor below zero, so
  the guard lets it through and a result is produced, with all seven tiers in the
  breakdown and an infinite fee.
\<close>

theorem infinite_amount_accepted:
  "calculationResult Goods Infinity Yuan (Fin 100) \<noteq> None \<and>
   map_option originalTotalFee (calculationResult Goods Infinity Yuan (Fin 100)) = Some Infinity \<and>
   map_option (length \<circ> breakdown) (calculationResult Goods Infinity Yuan (Fin 100)) = Some 7"
  by (simp add: evaluation)

text \<open>
  C3, amended. No result is produced exactly when the parsed amount is \<open>NaN\<close> or below
  zero (\<open>-Infinity\<close> included). Every other amount, zero and \<open>Infinity\<close> among them,
  gives a result, so that "no result" is never the outcome of a zero fee.
\<close>

theorem invalid_amount:
  "calculationResult s rawValue unit d = None \<longleftrightarrow> isNaN rawValue \<or> rawValue < Fin 0"
  by (simp add: calculationResult_def Let_def split: prod.split)

theorem invalid_amount_witness:
  "calculationResult Goods (Fin (- 1)) Yuan (Fin 100) = None \<and>
   calculationResult Goods NaN Yuan (Fin 100) = None \<and>
   calculationResult Goods NegInfinity Yuan (Fin 100) = None \<and>
   calculationResult Goods (Fin 0) Yuan (Fin 100) \<noteq> None"
  using invalid_amount [of Goods "Fin (- 1)" Yuan "Fin 100"]
    invalid_amount [of Goods NaN Yuan "Fin 100"]
    invalid_amount [of Goods NegInfinity Yuan "Fin 100"]
    invalid_amount [of Goods "Fin 0" Yuan "Fin 100"]
  by simp

text \<open>
  C4, as stated, fails: a discount of \<open>Infinity\<close> is not a finite number, yet it is kept
  as it is. For goods and 6,000,000 yuan the effective rate is then \<open>Infinity\<close>, not 100,
  and the discounted fee is infinite while the fee is 67,000.
\<close>

theorem infinite_discount_kept:
  "map_option discountRate (calculationResult Goods (Fin 6000000) Yuan Infinity)
     \<noteq> Some (Fin 100) \<and>
   map_option discountRate (calculationResult Goods (Fin 6000000) Yuan Infinity)
     = Some Infinity \<and>
   map_option discountedFee (calculationResult Goods (Fin 6000000) Yuan Infinity) = Some Infinity \<and>
   map_option originalTotalFee (calculationResult Goods (Fin 6000000) Yuan Infinity)
     = Some (Fin 67000)"
  by (simp add: evaluation)

text \<open>
  C4, amended. For every finite amount \<open>r \<ge> 0\<close> and every service type, a discount that
  is \<open>NaN\<close> or below zero (\<open>-Infinity\<close> included) is replaced by 100, and the discounted
  fee equals the fee; a result is produced all the same.
\<close>

theorem discount_fallback:
  assumes "0 \<le> r" and "isNaN d \<or> d < Fin 0"
  shows "\<exists>res. calculationResult s (Fin r) unit d = Some res \<and>
           discountRate res = Fin 100 \<and> discountedFee res = originalTotalFee res"
proof -
  define a where "a = (if unit = Wanyuan then r * 10000 else r)"
  have a: "0 \<le> a" "(if unit = Wanyuan then Fin r * Fin 10000 else Fin r) = Fin a"
    using assms by (simp_all add: a_def)
  have "0 < length TIERS"
    by (simp add: TIERS_length)
  from loop_sum [OF refl this a(1), of s 0 "[]" 0]
  show ?thesis
    using assms by (auto simp add: calculationResult_def a(2))
qed

theorem discount_fallback_witness:
  "(0::real) \<le> 6000000 \<and> Fin (- 5) < Fin 0 \<and> isNaN NaN \<and>
   (\<exists>res. calculationResult Goods (Fin 6000000) Yuan (Fin (- 5)) = Some res \<and>
      discountRate res = Fin 100 \<and> discountedFee res = originalTotalFee res) \<and>
   (\<exists>res. calculationResult Goods (Fin 6000000) Yuan NaN = Some res \<and>
      discountRate res = Fin 100 \<and> discountedFee res = originalTotalFee res)"
  using discount_fallback [where r = 6000000 and d = "Fin (- 5)" and s = Goods and unit = Yuan]
    discount_fallback [where r = 6000000 and d = NaN and s = Goods and unit = Yuan]
  by simp

text \<open>
  C5. Whenever a result is produced, the discounted fee is the fee times the effective
  rate over 100; a discount that passes the check (not \<open>NaN\<close>, not below zero) is the
  effective rate as it is, above 100 too; and at an effective rate of 100 the discounted
  fee is the fee.
\<close>

theorem discount_linear:
  assumes "calculationResult s rawValue unit d = Some res"
  shows "discountedFee res = originalTotalFee res * (discountRate res / Fin 100) \<and>
         (\<not> isNaN d \<and> \<not> d < Fin 0 \<longrightarrow> discountRate res = d) \<and>
         (discountRate res = Fin 100 \<longrightarrow> discountedFee res = originalTotalFee res)"
  using assms
  by (auto simp add: calculationResult_def Let_def times_Fin_1 case_prod_beta split: if_splits)

theorem discount_linear_witness:
  "calculationResult Goods (Fin 100) Yuan (Fin 120) =
     Some \<lparr>originalTotalFee = Fin 1.5, discountedFee = Fin 1.8, bidAmount = Fin 100,
           breakdown = [\<lparr>tierLabel = ''100'' @ wan @ yuan @ yixia, ratePercent = ''1.50%'',
               amountInTier = Fin 100, feeForTier = Fin 1.5\<rparr>],
           discountRate = Fin 120\<rparr> \<and>
   Fin 1.8 = Fin 1.5 * (Fin 120 / Fin 100) \<and>
   \<not> isNaN (Fin 120) \<and> \<not> Fin 120 < Fin 0"
proof -
  let ?res = "\<lparr>originalTotalFee = Fin 1.5, discountedFee = Fin 1.8, bidAmount = Fin 100,
           breakdown = [\<lparr>tierLabel = ''100'' @ wan @ yuan @ yixia, ratePercent = ''1.50%'',
               amountInTier = Fin 100, feeForTier = Fin 1.5\<rparr>],
           discountRate = Fin 120\<rparr>"
  have res: "calculationResult Goods (Fin 100) Yuan (Fin 120) = Some ?res"
    by (simp add: evaluation)
  from discount_linear [OF res] res show ?thesis
    by simp
qed

text \<open>
  C6. For every service type and every finite amount \<open>r \<ge> 0\<close> a result is produced;
  its breakdown is not empty when \<open>r > 0\<close>, and when \<open>r = 0\<close> the breakdown is empty and
  the fee is zero.
\<close>

theorem breakdown_nonempty:
  assumes "0 \<le> r"
  shows "\<exists>res. calculationResult s (Fin r) unit d = Some res \<and>
           (0 < r \<longrightarrow> breakdown res \<noteq> []) \<and>
           (r = 0 \<longrightarrow> breakdown res = [] \<and> originalTotalFee res = Fin 0)"
proof (cases "r = 0")
  case True
  then show ?thesis
    by (simp add: calculationResult_def loop_zero Let_def)
next
  case False
  define a where "a = (if unit = Wanyuan then r * 10000 else r)"
  have a: "0 < a" "(if unit = Wanyuan then Fin r * Fin 10000 else Fin r) = Fin a"
    using assms False by (simp_all add: a_def)
  from loop_positive [OF a(1), of s]
  show ?thesis
    using assms False by (simp add: calculationResult_def a(2) Let_def case_prod_beta)
qed

theorem breakdown_nonempty_witness:
  "(0::real) \<le> 0 \<and> (0::real) < 6000000 \<and>
   (\<exists>res. calculationResult Goods (Fin 0) Yuan (Fin 100) = Some res \<and>
      breakdown res = [] \<and> originalTotalFee res = Fin 0) \<and>
   (\<exists>res. calculationResult Goods (Fin 6000000) Yuan (Fin 100) = Some res \<and>
      breakdown res \<noteq> [])"
  using breakdown_nonempty [where r = 0 and s = Goods and unit = Yuan and d = "Fin 100"]
    breakdown_nonempty [where r = 6000000 and s = Goods and unit = Yuan and d = "Fin 100"]
  by simp

text \<open>
  C7. When the base amount of a result equals the limit of tier \<open>k\<close>, the breakdown
  consists of the tiers 0 to \<open>k\<close>, in order, their amounts add up to that limit, and no
  later tier contributes, the one that begins at the limit in particular. The labels
  identify the tiers (lemma \<open>labels_distinct\<close>).
\<close>

theorem boundary_allocation:
  assumes "calculationResult s rawValue unit d = Some res"
    and "k < length TIERS"
    and "bidAmount res = limit (TIERS ! k)"
  shows "map tierLabel (breakdown res) = map label (take (Suc k) TIERS) \<and>
         sum_list (map amountInTier (breakdown res)) = limit (TIERS ! k) \<and>
         (\<forall>j. k < j \<and> j < length TIERS \<longrightarrow>
              label (TIERS ! j) \<notin> set (map tierLabel (breakdown res)))"
proof -
  from assms(2) have k: "k < 7"
    by (simp add: TIERS_length)
  from assms(1,3) have
    "loop (RATES s) 0 (limit (TIERS ! k)) (Fin 0) [] (Fin 0) = (originalTotalFee res, breakdown res)"
    by (auto simp add: calculationResult_def Let_def case_prod_beta split: if_splits)
  with boundary_loop [OF k, of s] have *:
    "map tierLabel (breakdown res) = map label (take (Suc k) TIERS)"
    "sum_list (map amountInTier (breakdown res)) = limit (TIERS ! k)"
    by (simp_all only: prod.inject) blast+
  have "label (TIERS ! j) \<notin> set (map label (take (Suc k) TIERS))"
    if "k < j" "j < length TIERS" for j
  proof
    assume "label (TIERS ! j) \<in> set (map label (take (Suc k) TIERS))"
    then obtain m where m: "m < Suc k" "m < length TIERS" "label (TIERS ! m) = label (TIERS ! j)"
      by (auto simp add: in_set_conv_nth)
    with that labels_distinct have "m = j"
      by (simp add: distinct_conv_nth)
    with m(1) that(1) show False by simp
  qed
  with * show ?thesis by simp
qed

theorem boundary_allocation_witness:
  "calculationResult Goods (Fin 100) Wanyuan (Fin 100) =
     Some \<lparr>originalTotalFee = Fin 15000, discountedFee = Fin 15000, bidAmount = Fin 1000000,
           breakdown =
             [\<lparr>tierLabel = ''100'' @ wan @ yuan @ yixia, ratePercent = ''1.50%'',
               amountInTier = Fin 1000000, feeForTier = Fin 15000\<rparr>],
           discountRate = Fin 100\<rparr> \<and>
   0 < length TIERS \<and> Fin 1000000 = limit (TIERS ! 0) \<and>
   label (TIERS ! 1) \<notin> {''100'' @ wan @ yuan @ yixia}"
proof -
  let ?res = "\<lparr>originalTotalFee = Fin 15000, discountedFee = Fin 15000, bidAmount = Fin 1000000,
           breakdown =
             [\<lparr>tierLabel = ''100'' @ wan @ yuan @ yixia, ratePercent = ''1.50%'',
               amountInTier = Fin 1000000, feeForTier = Fin 15000\<rparr>],
           discountRate = Fin 100\<rparr>"
  have res: "calculationResult Goods (Fin 100) Wanyuan (Fin 100) = Some ?res"
    by (simp add: evaluation)
  have k: "0 < length TIERS" and b: "bidAmount ?res = limit (TIERS ! 0)"
    by (simp_all add: TIERS_def)
  from boundary_allocation [OF res k b] res k b show ?thesis
    by (simp add: TIERS_length)
qed

text \<open>
  C8. Monotonicity: for a fixed service type and unit, and finite amounts
  \<open>0 \<le> a \<le> b\<close>, both results are produced and the fee for \<open>a\<close> is at most the fee for
  \<open>b\<close>, whatever the discounts.
\<close>

theorem fee_monotone:
  assumes "0 \<le> a" and "a \<le> b"
  shows "\<exists>ra rb. calculationResult s (Fin a) unit d = Some ra \<and>
           calculationResult s (Fin b) unit d' = Some rb \<and>
           originalTotalFee ra \<le> originalTotalFee rb"
proof -
  define x where "x = (if unit = Wanyuan then a * 10000 else a)"
  define y where "y = (if unit = Wanyuan then b * 10000 else b)"
  have x: "0 \<le> x" "x \<le> y"
    "(if unit = Wanyuan then Fin a * Fin 10000 else Fin a) = Fin x"
    "(if unit = Wanyuan then Fin b * Fin 10000 else Fin b) = Fin y"
    using assms by (simp_all add: x_def y_def)
  have "0 < length TIERS"
    by (simp add: TIERS_length)
  from loop_mono [OF refl this x(1,2), of s 0 "[]" 0 0 "[]"]
  show ?thesis
    using assms by (auto simp add: calculationResult_def x(3,4) Let_def case_prod_beta)
qed

theorem fee_monotone_witness:
  "(0::real) \<le> 1000000 \<and> (1000000::real) \<le> 6000000 \<and>
   (\<exists>ra rb. calculationResult Goods (Fin 1000000) Yuan (Fin 100) = Some ra \<and>
      calculationResult Goods (Fin 6000000) Yuan (Fin 85) = Some rb \<and>
      originalTotalFee ra \<le> originalTotalFee rb)"
  using fee_monotone [where a = 1000000 and b = 6000000 and s = Goods and unit = Yuan
      and d = "Fin 100" and d' = "Fin 85"]
  by simp

text \<open>
  C9. The tables: the limits of \<open>TIERS\<close> are strictly increasing; the last tier, and no
  other, has the limit \<open>Infinity\<close>; every rate table has the length of \<open>TIERS\<close>; and
  every rate is at least zero.
\<close>

theorem schedule_invariants:
  "sorted_wrt (<) (map limit TIERS) \<and>
   [i \<leftarrow> [0..<length TIERS]. limit (TIERS ! i) = Infinity] = [length TIERS - 1] \<and>
   length (RATES s) = length TIERS \<and>
   list_all (\<lambda>q. Fin 0 \<le> q) (RATES s)"
  by (cases s) (simp_all add: TIERS_def)

text \<open>
  C10. For every parsed amount that passes the guard, the base amount that enters the
  loop, and that the result reports as \<open>bidAmount\<close>, is the parsed value in the unit
  yuan, and the parsed value times 10,000 in the unit wanyuan.
\<close>

theorem unit_conversion:
  assumes "\<not> isNaN rawValue" and "\<not> rawValue < Fin 0"
  shows "\<exists>ry rw.
           calculationResult s rawValue Yuan d = Some ry \<and>
           bidAmount ry = rawValue \<and>
           (originalTotalFee ry, breakdown ry) = loop (RATES s) 0 rawValue (Fin 0) [] (Fin 0) \<and>
           calculationResult s rawValue Wanyuan d = Some rw \<and>
           bidAmount rw = rawValue * Fin 10000 \<and>
           (originalTotalFee rw, breakdown rw) =
             loop (RATES s) 0 (rawValue * Fin 10000) (Fin 0) [] (Fin 0)"
  using assms by (simp add: calculationResult_def Let_def case_prod_beta)

theorem unit_conversion_witness:
  "\<not> isNaN (Fin 600) \<and> \<not> Fin 600 < Fin 0 \<and>
   (\<exists>ry rw.
      calculationResult Goods (Fin 600) Yuan (Fin 85) = Some ry \<and>
      bidAmount ry = Fin 600 \<and>
      (originalTotalFee ry, breakdown ry) = loop (RATES Goods) 0 (Fin 600) (Fin 0) [] (Fin 0) \<and>
      calculationResult Goods (Fin 600) Wanyuan (Fin 85) = Some rw \<and>
      bidAmount rw = Fin 6000000 \<and>
      (originalTotalFee rw, breakdown rw) =
        loop (RATES Goods) 0 (Fin 6000000) (Fin 0) [] (Fin 0))"
  using unit_conversion [where rawValue = "Fin 600" and s = Goods and d = "Fin 85"]
  by simp

end
